theory Spec2Isabelle
  imports Complex_Main "HOL-Library.Log_Nat"
begin

section \<open>The money request modal: data model\<close>

text \<open>
  The component \<open>MoneyRequestModal\<close> of \<open>src/pages/iou/MoneyRequestModal.js\<close> is a
  React function component. Its local state is the four \<open>useState\<close> cells, its
  callbacks are closures over the state and the props of the render that created them,
  and every callback either calls state setters or functions of external modules.
  The embedding keeps that shape: a callback is a function from the props and the
  state of its render to the list of calls it makes, in order; the setters among these
  calls are then applied to the state.

  JavaScript strings are lists of code units; the model uses \<open>string\<close>, whose
  characters are the code units below 256. Step indices are JavaScript numbers that
  only ever hold integers here, modelled as \<open>int\<close>.
\<close>

text \<open>The constant \<open>Steps\<close> (lines 101-105): the three kinds of step.\<close>

datatype step = IOUAmount | IOUParticipants | IOUConfirm

text \<open>
  An entry of \<open>participantsWithDetails\<close> (lines 109-123). The entries are computed
  from \<open>OptionsListUtils\<close>, \<open>Str\<close> and \<open>ReportUtils\<close>, which are not part of this file,
  so the model takes the computed list as part of the props.
\<close>

record icon =
  source :: string
  name :: string
  icon_type :: string

record participant =
  login :: string
  displayText :: string
  firstName :: string
  lastName :: string
  alternateText :: string
  icons :: "icon list"
  keyForList :: string
  payPalMeAddress :: string
  phoneNumber :: string

text \<open>
  The prop \<open>iou\<close> (lines 51-60), with the field \<open>comment\<close> that the callbacks read.
  The mount effect (line 139) sets the comment to the empty string before any step is
  shown, so \<open>comment\<close> is a string whenever a callback runs. The selected currency
  code may be \<open>null\<close> (line 96).
\<close>

record iou_draft =
  creatingIOUTransaction :: bool
  iou_error :: bool
  selectedCurrencyCode :: "string option"
  comment :: string

text \<open>The prop \<open>report\<close>: \<open>reportParticipants\<close> is \<open>lodashGet(props, 'report.participants', [])\<close>.\<close>

record report =
  reportParticipants :: "string list"

text \<open>
  The props the component reads. \<open>iou_ref\<close> is the identity of the object \<open>props.iou\<close>:
  React compares the dependencies of an effect with \<open>Object.is\<close>, so the effect of
  lines 143-155 runs again exactly when this identity changes. \<open>route_reportID\<close> is
  \<open>props.route.params.reportID\<close>, absent when the route has no such parameter.
\<close>

record props =
  hasMultipleParticipants :: bool
  iouType :: string
  report :: report
  network_isOffline :: bool
  iou :: iou_draft
  iou_ref :: nat
  currentUser_login :: string
  currentUser_localCurrencyCode :: string
  route_reportID :: "string option"
  preferredLocale :: string
  participantsWithDetails :: "participant list"

text \<open>The four \<open>useState\<close> cells (lines 131-134).\<close>

record wizard_state =
  previousStepIndex :: int
  currentStepIndex :: int
  participants :: "participant list"
  amount :: string

text \<open>
  Every call a callback or an effect of the component makes: the four state setters,
  and the functions of \<open>PersonalDetails\<close>, \<open>IOU\<close> and \<open>Navigation\<close> with
  their arguments in the order of the source. A number
  argument is \<open>None\<close> when the model does not determine it (see \<open>StringToNumber\<close>);
  a participant argument is \<open>None\<close> when the source passes \<open>undefined\<close>.
\<close>

datatype call =
    SetPreviousStepIndex int
  | SetCurrentStepIndex int
  | SetParticipants "participant list"
  | SetAmount string
  | OpenMoneyRequestModalPage
  | SetIOUSelectedCurrency string
  | SetMoneyRequestDescription string
  | DismissModal
  | SendMoneyElsewhere report "int option" "string option" string string "participant option"
  | SendMoneyViaPaypal report "int option" "string option" string string "participant option"
  | SendMoneyWithWallet report "int option" "string option" string string "participant option"
  | SplitBill "participant list" string string string "string option" string string
  | SplitBillAndOpenReport "participant list" string string string "string option" string
  | RequestMoney report "int option" "string option" string "participant option" string

text \<open>A state setter replaces its cell; a call of an external module leaves the local state alone.\<close>

fun applyCall :: "wizard_state \<Rightarrow> call \<Rightarrow> wizard_state" where
  "applyCall s (SetPreviousStepIndex i) = s\<lparr>previousStepIndex := i\<rparr>"
| "applyCall s (SetCurrentStepIndex i) = s\<lparr>currentStepIndex := i\<rparr>"
| "applyCall s (SetParticipants ps) = s\<lparr>participants := ps\<rparr>"
| "applyCall s (SetAmount a) = s\<lparr>amount := a\<rparr>"
| "applyCall s _ = s"

definition dispatch :: "wizard_state \<Rightarrow> call list \<Rightarrow> wizard_state" where
  "dispatch s cs = foldl applyCall s cs"

fun isIndexSetter :: "call \<Rightarrow> bool" where
  "isIndexSetter (SetPreviousStepIndex _) = True"
| "isIndexSetter (SetCurrentStepIndex _) = True"
| "isIndexSetter _ = False"

section \<open>Step sequence and navigation\<close>

text \<open>Line 126: the participants step is skipped when the report has participants.\<close>

definition steps :: "props \<Rightarrow> step list" where
  "steps p =
     (if length (reportParticipants (report p)) \<noteq> 0 then [IOUAmount, IOUConfirm]
      else [IOUAmount, IOUParticipants, IOUConfirm])"

text \<open>\<open>_.indexOf\<close>: the first position of the element, \<open>-1\<close> when it is absent.\<close>

fun indexOfFrom :: "int \<Rightarrow> 'a list \<Rightarrow> 'a \<Rightarrow> int" where
  "indexOfFrom i [] x = - 1"
| "indexOfFrom i (y # ys) x = (if y = x then i else indexOfFrom (i + 1) ys x)"

definition indexOf :: "'a list \<Rightarrow> 'a \<Rightarrow> int" where
  "indexOf xs x = indexOfFrom 0 xs x"

text \<open>Reading \<open>xs[0]\<close>: \<open>undefined\<close> (here \<open>None\<close>) on an empty array.\<close>

fun firstElement :: "'a list \<Rightarrow> 'a option" where
  "firstElement [] = None"
| "firstElement (x # _) = Some x"

text \<open>Lines 177-200: the animation direction, \<open>'in'\<close>, \<open>'out'\<close> or \<open>null\<close>.\<close>

definition direction :: "props \<Rightarrow> wizard_state \<Rightarrow> string option" where
  "direction p s =
     (let amountIndex = indexOf (steps p) IOUAmount;
          confirmIndex = indexOf (steps p) IOUConfirm
      in if previousStepIndex s = confirmIndex \<and> currentStepIndex s = amountIndex then Some ''in''
         else if previousStepIndex s = amountIndex \<and> currentStepIndex s = confirmIndex then Some ''out''
         else if previousStepIndex s < currentStepIndex s then Some ''in''
         else if previousStepIndex s > currentStepIndex s then Some ''out''
         else None)"

text \<open>Lines 224-235.\<close>

definition navigateToStep :: "props \<Rightarrow> wizard_state \<Rightarrow> int \<Rightarrow> call list" where
  "navigateToStep p s stepIndex =
     (if stepIndex < 0 \<or> stepIndex > int (length (steps p)) then []
      else if currentStepIndex s = stepIndex then []
      else [SetPreviousStepIndex (currentStepIndex s), SetCurrentStepIndex stepIndex])"

text \<open>Lines 240-247.\<close>

definition navigateToPreviousStep :: "props \<Rightarrow> wizard_state \<Rightarrow> call list" where
  "navigateToPreviousStep p s =
     (if currentStepIndex s \<le> 0 then []
      else [SetPreviousStepIndex (currentStepIndex s), SetCurrentStepIndex (currentStepIndex s - 1)])"

text \<open>Lines 252-266.\<close>

definition navigateToNextStep :: "props \<Rightarrow> wizard_state \<Rightarrow> call list" where
  "navigateToNextStep p s =
     (if currentStepIndex s \<ge> int (length (steps p)) - 1 then []
      else let confirmIndex = indexOf (steps p) IOUConfirm
           in if previousStepIndex s = confirmIndex then navigateToStep p s confirmIndex
              else [SetPreviousStepIndex (currentStepIndex s),
                    SetCurrentStepIndex (currentStepIndex s + 1)])"

text \<open>Line 359: \<open>steps[currentStepIndex]\<close>, \<open>undefined\<close> (here \<open>None\<close>) outside the array.\<close>

definition currentStep :: "props \<Rightarrow> wizard_state \<Rightarrow> step option" where
  "currentStep p s =
     (if 0 \<le> currentStepIndex s \<and> currentStepIndex s < int (length (steps p))
      then Some (steps p ! nat (currentStepIndex s)) else None)"

text \<open>
  The two handlers of the render that set the other two cells: the amount step stores
  the amount and goes to the next step (lines 379-382), the participants step stores
  the selection (line 401).
\<close>

definition amountStepComplete :: "props \<Rightarrow> wizard_state \<Rightarrow> string \<Rightarrow> call list" where
  "amountStepComplete p s v = SetAmount v # navigateToNextStep p s"

definition onAddParticipants :: "participant list \<Rightarrow> call list" where
  "onAddParticipants selectedParticipants = [SetParticipants selectedParticipants]"

section \<open>Numbers\<close>

text \<open>
  \<open>Math.round(amount * 100)\<close> converts the string \<open>amount\<close> to a number, multiplies
  in binary64 arithmetic and rounds to an integer. The model keeps a finite
  non-negative binary64 value as the rational number it denotes and rounds every
  result to the nearest representable value, ties to even, as IEEE 754 does.
\<close>

definition pow2 :: "int \<Rightarrow> rat" where
  "pow2 k = (if 0 \<le> k then 2 ^ nat k else 1 / 2 ^ nat (- k))"

text \<open>The exponent \<open>e\<close> with \<open>2^e \<le> x < 2^(e+1)\<close>, for positive \<open>x\<close>.\<close>

definition binade :: "rat \<Rightarrow> int" where
  "binade x =
     (let k = bitlen (fst (quotient_of x)) - bitlen (snd (quotient_of x))
      in if pow2 k \<le> x then k else k - 1)"

definition roundHalfEven :: "rat \<Rightarrow> int" where
  "roundHalfEven r =
     (let f = \<lfloor>r\<rfloor>; d = r - of_int f
      in if d < 1 / 2 then f else if 1 / 2 < d then f + 1 else if even f then f else f + 1)"

text \<open>
  The binary64 value nearest to a non-negative rational: 53 significant bits, the
  least exponent \<open>-1022\<close> (below it the spacing of the subnormal numbers), and
  \<open>None\<close> where the result is not a finite non-negative number (a negative
  argument, or a magnitude that rounds to \<open>Infinity\<close>); the model does not follow
  the computation further there.
\<close>

definition roundToDouble :: "rat \<Rightarrow> rat option" where
  "roundToDouble x =
     (if x < 0 then None
      else if x = 0 then Some 0
      else let ulp = pow2 (max (binade x) (- 1022) - 52);
               r = of_int (roundHalfEven (x / ulp)) * ulp
           in if r < pow2 1024 then Some r else None)"

text \<open>White space and line terminators among the code units below 256.\<close>

definition isWhiteSpace :: "char \<Rightarrow> bool" where
  "isWhiteSpace c = ((of_char c :: nat) \<in> set [9, 10, 11, 12, 13, 32, 160])"

text \<open>\<open>String.prototype.trim\<close>.\<close>

definition trim :: "string \<Rightarrow> string" where
  "trim s = rev (dropWhile isWhiteSpace (rev (dropWhile isWhiteSpace s)))"

definition isDecimalDigit :: "char \<Rightarrow> bool" where
  "isDecimalDigit c = (48 \<le> (of_char c :: nat) \<and> (of_char c :: nat) \<le> 57)"

definition decimalDigits :: "string \<Rightarrow> nat" where
  "decimalDigits ds = foldl (\<lambda>n c. 10 * n + (of_char c - 48)) 0 ds"

text \<open>
  The mathematical value of an unsigned decimal literal without exponent:
  \<open>digits\<close>, \<open>digits.\<close>, \<open>digits.digits\<close> or \<open>.digits\<close>.
\<close>

definition decimalLiteral :: "string \<Rightarrow> rat option" where
  "decimalLiteral t =
     (let ip = takeWhile isDecimalDigit t; rest = dropWhile isDecimalDigit t
      in case rest of
           [] \<Rightarrow> (if ip = [] then None else Some (of_nat (decimalDigits ip)))
         | c # fp \<Rightarrow>
             (if c = CHR ''.'' \<and> list_all isDecimalDigit fp \<and> (ip \<noteq> [] \<or> fp \<noteq> [])
              then Some (of_nat (decimalDigits ip) + of_nat (decimalDigits fp) / 10 ^ length fp)
              else None))"

text \<open>
  The conversion of a string to a number, for the strings an amount field holds: the
  empty string (after trimming) is \<open>0\<close>, an unsigned decimal literal is the binary64
  value nearest to it. For every other string (a sign, an exponent, a hexadecimal
  literal, \<open>Infinity\<close>, or text that converts to \<open>NaN\<close>) the result is \<open>None\<close>:
  the model does not determine the number.
\<close>

definition StringToNumber :: "string \<Rightarrow> rat option" where
  "StringToNumber s =
     (let t = trim s
      in if t = [] then Some 0
         else Option.bind (decimalLiteral t) roundToDouble)"

text \<open>The product of two non-negative binary64 values: the exact product, rounded.\<close>

definition numberMultiply :: "rat \<Rightarrow> rat \<Rightarrow> rat option" where
  "numberMultiply x y = roundToDouble (x * y)"

text \<open>\<open>Math.round\<close>: the nearest integer, a tie going to the larger one.\<close>

definition Math_round :: "rat \<Rightarrow> int" where
  "Math_round x = \<lfloor>x + 1 / 2\<rfloor>"

text \<open>The expression \<open>Math.round(amount * 100)\<close> of lines 274 and 351.\<close>

definition amountInDollars :: "string \<Rightarrow> int option" where
  "amountInDollars a =
     map_option Math_round (Option.bind (StringToNumber a) (\<lambda>d. numberMultiply d 100))"

section \<open>Submission\<close>

text \<open>
  The constants of \<open>CONST\<close> that the two submission callbacks read. \<open>CONST.js\<close> is
  not part of this file, so they are parameters: the three payment types and the test
  of the regular expression \<open>CONST.REGEX.NUMBER\<close>, taken as a function of the string it
  is applied to (a regular expression without the global flag keeps no position between
  two tests).
\<close>

record const =
  PAYMENT_TYPE_ELSEWHERE :: string
  PAYMENT_TYPE_PAYPAL_ME :: string
  PAYMENT_TYPE_EXPENSIFY :: string
  REGEX_NUMBER_test :: "string \<Rightarrow> bool"

text \<open>Lines 273-313.\<close>

definition sendMoney :: "const \<Rightarrow> props \<Rightarrow> wizard_state \<Rightarrow> string \<Rightarrow> call list" where
  "sendMoney C p s paymentMethodType =
     (let amountInDollars = amountInDollars (amount s);
          currency = selectedCurrencyCode (iou p);
          trimmedComment = trim (comment (iou p));
          participant = firstElement (participants s)
      in if paymentMethodType = PAYMENT_TYPE_ELSEWHERE C
         then [SendMoneyElsewhere (report p) amountInDollars currency trimmedComment
                 (currentUser_login p) participant]
         else if paymentMethodType = PAYMENT_TYPE_PAYPAL_ME C
         then [SendMoneyViaPaypal (report p) amountInDollars currency trimmedComment
                 (currentUser_login p) participant]
         else if paymentMethodType = PAYMENT_TYPE_EXPENSIFY C
         then [SendMoneyWithWallet (report p) amountInDollars currency trimmedComment
                 (currentUser_login p) participant]
         else [])"

text \<open>\<open>lodashGet(props.route, 'params.reportID', '')\<close>.\<close>

definition routeReportID :: "props \<Rightarrow> string" where
  "routeReportID p = (case route_reportID p of None \<Rightarrow> [] | Some r \<Rightarrow> r)"

text \<open>Lines 318-357.\<close>

definition createTransaction ::
  "const \<Rightarrow> props \<Rightarrow> wizard_state \<Rightarrow> participant list \<Rightarrow> call list" where
  "createTransaction C p s selectedParticipants =
     (let reportID = routeReportID p;
          trimmedComment = trim (comment (iou p))
      in if hasMultipleParticipants p \<and> REGEX_NUMBER_test C reportID
         then [SplitBill selectedParticipants (currentUser_login p) (amount s) trimmedComment
                 (selectedCurrencyCode (iou p)) (preferredLocale p) reportID]
         else if hasMultipleParticipants p
         then [SplitBillAndOpenReport selectedParticipants (currentUser_login p) (amount s)
                 trimmedComment (selectedCurrencyCode (iou p)) (preferredLocale p)]
         else [RequestMoney (report p) (amountInDollars (amount s))
                 (selectedCurrencyCode (iou p)) (currentUser_login p)
                 (firstElement selectedParticipants) trimmedComment])"

section \<open>Effects\<close>

text \<open>Lines 136-141: the effect that runs once, after the first render.\<close>

definition mountEffect :: "props \<Rightarrow> call list" where
  "mountEffect p =
     [OpenMoneyRequestModalPage,
      SetIOUSelectedCurrency (currentUser_localCurrencyCode p),
      SetMoneyRequestDescription []]"

text \<open>
  Lines 143-155: the effect on \<open>props.iou\<close>. Its first argument is the value of
  \<open>prevCreatingIOUTransactionStatusRef.current\<close> when it runs.
\<close>

definition transactionCompletionEffect :: "bool \<Rightarrow> iou_draft \<Rightarrow> call list" where
  "transactionCompletionEffect prevCreating d =
     (if \<not> prevCreating \<or> creatingIOUTransaction d then []
      else if iou_error d = True then [SetCurrentStepIndex 0]
      else [DismissModal])"

text \<open>
  Lines 157-164: the effect on \<open>props.network.isOffline\<close>. Its first argument is the
  value of \<open>prevNetworkStatusRef.current\<close> when it runs.
\<close>

definition connectivityEffect :: "bool \<Rightarrow> props \<Rightarrow> call list" where
  "connectivityEffect prevOffline p =
     (if network_isOffline p \<or> \<not> prevOffline then [] else [OpenMoneyRequestModalPage])"

text \<open>
  A mounted component: its state, its two refs (lines 128-129), and the dependencies
  of the two conditional effects as React remembers them from the last render.
\<close>

record component =
  wizard :: wizard_state
  prevCreatingIOUTransactionStatusRef :: bool
  prevNetworkStatusRef :: bool
  deps_iou :: nat
  deps_isOffline :: bool

text \<open>Lines 131-134: the initial values of the state cells.\<close>

definition initialState :: "props \<Rightarrow> wizard_state" where
  "initialState p =
     \<lparr>previousStepIndex = 0, currentStepIndex = 0,
      participants = participantsWithDetails p, amount = []\<rparr>"

text \<open>
  The first render: the refs are initialised from the props (lines 128-129), then all
  four effects run in the order of the source; the last one (lines 166-170) stores the
  two flags in the refs. The result is the calls made and the component after them.
\<close>

definition mount :: "props \<Rightarrow> call list \<times> component" where
  "mount p =
     (let calls = mountEffect p
                @ transactionCompletionEffect (creatingIOUTransaction (iou p)) (iou p)
                @ connectivityEffect (network_isOffline p) p
      in (calls,
          \<lparr>wizard = dispatch (initialState p) calls,
           prevCreatingIOUTransactionStatusRef = creatingIOUTransaction (iou p),
           prevNetworkStatusRef = network_isOffline p,
           deps_iou = iou_ref p,
           deps_isOffline = network_isOffline p\<rparr>))"

text \<open>
  A later render with props \<open>p\<close>: an effect with dependencies runs when a dependency
  differs from the last render's, the effect of lines 166-170 runs every time.
\<close>

definition render :: "props \<Rightarrow> component \<Rightarrow> call list \<times> component" where
  "render p i =
     (let calls =
            (if iou_ref p \<noteq> deps_iou i
             then transactionCompletionEffect (prevCreatingIOUTransactionStatusRef i) (iou p)
             else [])
          @ (if network_isOffline p \<noteq> deps_isOffline i
             then connectivityEffect (prevNetworkStatusRef i) p
             else [])
      in (calls,
          \<lparr>wizard = dispatch (wizard i) calls,
           prevCreatingIOUTransactionStatusRef = creatingIOUTransaction (iou p),
           prevNetworkStatusRef = network_isOffline p,
           deps_iou = iou_ref p,
           deps_isOffline = network_isOffline p\<rparr>))"

text \<open>The calls of each render of a sequence of renders, one entry per render.\<close>

fun renders :: "component \<Rightarrow> props list \<Rightarrow> call list list" where
  "renders i [] = []"
| "renders i (p # ps) = fst (render p i) # renders (snd (render p i)) ps"

text \<open>The two calls the effect of lines 143-155 can make.\<close>

fun isCompletionCall :: "call \<Rightarrow> bool" where
  "isCompletionCall (SetCurrentStepIndex i) = (i = 0)"
| "isCompletionCall DismissModal = True"
| "isCompletionCall _ = False"

text \<open>
  What the specification asks of the reaction, over a sequence of renders: one firing
  at each render whose in-flight flag is false after a render whose flag was true, and
  none at any other render; the firing resets the step when the error flag is set and
  dismisses the modal otherwise.
\<close>

fun fallingEdges :: "bool \<Rightarrow> props list \<Rightarrow> call list list" where
  "fallingEdges prev [] = []"
| "fallingEdges prev (p # ps) =
     (if prev \<and> \<not> creatingIOUTransaction (iou p)
      then [if iou_error (iou p) then SetCurrentStepIndex 0 else DismissModal]
      else [])
     # fallingEdges (creatingIOUTransaction (iou p)) ps"

text \<open>
  The objects of the store are never mutated: a render that receives the same object
  \<open>props.iou\<close> as the render before it sees the same in-flight flag.
\<close>

fun immutableIou :: "nat \<Rightarrow> bool \<Rightarrow> props list \<Rightarrow> bool" where
  "immutableIou r f [] = True"
| "immutableIou r f (p # ps) =
     ((iou_ref p = r \<longrightarrow> creatingIOUTransaction (iou p) = f)
      \<and> immutableIou (iou_ref p) (creatingIOUTransaction (iou p)) ps)"

section \<open>Sequences of operations\<close>

text \<open>
  The operations that change the step indices: the three navigation callbacks and the
  effect of lines 143-155, here with the value of the ref and the \<open>iou\<close> object it
  runs with.
\<close>

datatype operation =
    NavigateToStep int
  | NavigateToNextStep
  | NavigateToPreviousStep
  | TransactionCompletion bool iou_draft

fun operationCalls :: "props \<Rightarrow> wizard_state \<Rightarrow> operation \<Rightarrow> call list" where
  "operationCalls p s (NavigateToStep i) = navigateToStep p s i"
| "operationCalls p s NavigateToNextStep = navigateToNextStep p s"
| "operationCalls p s NavigateToPreviousStep = navigateToPreviousStep p s"
| "operationCalls p s (TransactionCompletion prevCreating d) = transactionCompletionEffect prevCreating d"

definition perform :: "props \<Rightarrow> wizard_state \<Rightarrow> operation \<Rightarrow> wizard_state" where
  "perform p s op = dispatch s (operationCalls p s op)"

definition performAll :: "props \<Rightarrow> wizard_state \<Rightarrow> operation list \<Rightarrow> wizard_state" where
  "performAll p s ops = foldl (perform p) s ops"

text \<open>An operation that does not ask \<open>navigateToStep\<close> for the index \<open>steps.length\<close>.\<close>

fun withinSteps :: "props \<Rightarrow> operation \<Rightarrow> bool" where
  "withinSteps p (NavigateToStep i) = (i \<noteq> int (length (steps p)))"
| "withinSteps p _ = True"

section \<open>Example inputs\<close>

text \<open>
  A request opened from the global menu: no report participants, so three steps; no
  transaction in flight.
\<close>

definition exampleIou :: iou_draft where
  "exampleIou =
     \<lparr>creatingIOUTransaction = False, iou_error = False,
      selectedCurrencyCode = Some ''USD'', comment = []\<rparr>"

definition exampleProps :: props where
  "exampleProps =
     \<lparr>hasMultipleParticipants = False, iouType = ''request'',
      report = \<lparr>reportParticipants = []\<rparr>, network_isOffline = False,
      iou = exampleIou, iou_ref = 0,
      currentUser_login = ''payer@example.com'', currentUser_localCurrencyCode = ''USD'',
      route_reportID = None, preferredLocale = ''en'', participantsWithDetails = []\<rparr>"

text \<open>The same props with another \<open>iou\<close> object: its identity and its two flags.\<close>

definition examplePropsWith :: "nat \<Rightarrow> bool \<Rightarrow> bool \<Rightarrow> props" where
  "examplePropsWith r creating err =
     exampleProps\<lparr>iou := exampleIou\<lparr>creatingIOUTransaction := creating, iou_error := err\<rparr>,
                  iou_ref := r\<rparr>"

text \<open>
  A component on the participants step whose last render saw a transaction in flight.
\<close>

definition exampleComponent :: component where
  "exampleComponent =
     \<lparr>wizard = \<lparr>previousStepIndex = 1, currentStepIndex = 2,
                participants = [], amount = ''12.345''\<rparr>,
      prevCreatingIOUTransactionStatusRef = True, prevNetworkStatusRef = False,
      deps_iou = 1, deps_isOffline = False\<rparr>"

section \<open>Properties of the step sequence\<close>

lemma length_steps: "length (steps p) = 2 \<or> length (steps p) = 3"
  by (simp add: steps_def)

lemma amountIndex_steps: "indexOf (steps p) IOUAmount = 0"
  by (simp add: steps_def indexOf_def)

lemma confirmIndex_steps: "indexOf (steps p) IOUConfirm = int (length (steps p)) - 1"
  by (simp add: steps_def indexOf_def)

section \<open>The state after each operation\<close>

lemma dispatch_Nil: "dispatch s [] = s"
  by (simp add: dispatch_def)

lemma dispatch_index_setters:
  "dispatch s [SetPreviousStepIndex i, SetCurrentStepIndex j] =
     s\<lparr>previousStepIndex := i, currentStepIndex := j\<rparr>"
  by (simp add: dispatch_def)

text \<open>
  What \<open>navigateToStep\<close> does on every state and index. The guard of line 225 lets
  the index \<open>steps.length\<close> pass.
\<close>

lemma navigateToStep_dispatch:
  "dispatch s (navigateToStep p s i) =
     (if i < 0 \<or> int (length (steps p)) < i \<or> i = currentStepIndex s then s
      else s\<lparr>previousStepIndex := currentStepIndex s, currentStepIndex := i\<rparr>)"
  by (auto simp: navigateToStep_def dispatch_Nil dispatch_index_setters)

lemma navigateToPreviousStep_dispatch:
  "dispatch s (navigateToPreviousStep p s) =
     (if currentStepIndex s \<le> 0 then s
      else s\<lparr>previousStepIndex := currentStepIndex s,
             currentStepIndex := currentStepIndex s - 1\<rparr>)"
  by (simp add: navigateToPreviousStep_def dispatch_Nil dispatch_index_setters)

lemma navigateToNextStep_dispatch:
  "dispatch s (navigateToNextStep p s) =
     (if int (length (steps p)) - 1 \<le> currentStepIndex s then s
      else if previousStepIndex s = int (length (steps p)) - 1
      then s\<lparr>previousStepIndex := currentStepIndex s,
             currentStepIndex := int (length (steps p)) - 1\<rparr>
      else s\<lparr>previousStepIndex := currentStepIndex s,
             currentStepIndex := currentStepIndex s + 1\<rparr>)"
  using length_steps [of p]
  by (auto simp: navigateToNextStep_def Let_def confirmIndex_steps navigateToStep_def
      dispatch_Nil dispatch_index_setters)

lemma transactionCompletionEffect_dispatch:
  "dispatch s (transactionCompletionEffect prev d) =
     (if prev \<and> \<not> creatingIOUTransaction d \<and> iou_error d
      then s\<lparr>currentStepIndex := 0\<rparr> else s)"
  by (simp add: transactionCompletionEffect_def dispatch_def)

section \<open>The bounds of the current step index\<close>

text \<open>
  Every operation keeps the current index between \<open>0\<close> and \<open>steps.length\<close>, both
  included.
\<close>

lemma perform_currentStepIndex_bounds:
  assumes "0 \<le> currentStepIndex s" "currentStepIndex s \<le> int (length (steps p))"
  shows "0 \<le> currentStepIndex (perform p s op)
    \<and> currentStepIndex (perform p s op) \<le> int (length (steps p))"
  using assms length_steps [of p]
  by (cases op)
     (auto simp: perform_def navigateToStep_dispatch navigateToPreviousStep_dispatch
        navigateToNextStep_dispatch transactionCompletionEffect_dispatch)

lemma performAll_currentStepIndex_bounds:
  assumes "0 \<le> currentStepIndex s" "currentStepIndex s \<le> int (length (steps p))"
  shows "0 \<le> currentStepIndex (performAll p s ops)
    \<and> currentStepIndex (performAll p s ops) \<le> int (length (steps p))"
  using assms
proof (induction ops arbitrary: s)
  case Nil
  then show ?case by (simp add: performAll_def)
next
  case (Cons op ops)
  have "performAll p s (op # ops) = performAll p (perform p s op) ops"
    by (simp add: performAll_def)
  then show ?case
    using Cons.IH [of "perform p s op"] perform_currentStepIndex_bounds [OF Cons.prems, of op]
    by simp
qed

text \<open>
  The current index stays below \<open>steps.length\<close> as long as \<open>navigateToStep\<close> is
  never asked for the index \<open>steps.length\<close> itself.
\<close>

lemma perform_currentStepIndex_within:
  assumes "0 \<le> currentStepIndex s" "currentStepIndex s < int (length (steps p))"
    and "withinSteps p op"
  shows "0 \<le> currentStepIndex (perform p s op)
    \<and> currentStepIndex (perform p s op) < int (length (steps p))"
  using assms length_steps [of p]
  by (cases op)
     (auto simp: perform_def navigateToStep_dispatch navigateToPreviousStep_dispatch
        navigateToNextStep_dispatch transactionCompletionEffect_dispatch)

lemma performAll_currentStepIndex_within:
  assumes "0 \<le> currentStepIndex s" "currentStepIndex s < int (length (steps p))"
    and "list_all (withinSteps p) ops"
  shows "0 \<le> currentStepIndex (performAll p s ops)
    \<and> currentStepIndex (performAll p s ops) < int (length (steps p))"
  using assms
proof (induction ops arbitrary: s)
  case Nil
  then show ?case by (simp add: performAll_def)
next
  case (Cons op ops)
  have step: "0 \<le> currentStepIndex (perform p s op)
      \<and> currentStepIndex (perform p s op) < int (length (steps p))"
    using perform_currentStepIndex_within [of s p op] Cons.prems by simp
  have "performAll p s (op # ops) = performAll p (perform p s op) ops"
    by (simp add: performAll_def)
  then show ?case
    using Cons.IH [of "perform p s op"] step Cons.prems by simp
qed

text \<open>
  Claim C1: from the initial state, every sequence of navigation and reaction
  operations keeps \<open>0 \<le> currentStepIndex < length steps\<close>. The code does not: on the
  initial state, for every step sequence, \<open>navigateToStep(steps.length)\<close> passes the
  guard of line 225 and sets the current index to \<open>steps.length\<close>, where
  \<open>steps[currentStepIndex]\<close> is \<open>undefined\<close> and no step is shown.
\<close>

theorem navigateToStep_length_breaks_invariant:
  "currentStepIndex (performAll p (initialState p) [NavigateToStep (int (length (steps p)))])
     = int (length (steps p))
   \<and> currentStep p (performAll p (initialState p) [NavigateToStep (int (length (steps p)))])
     = None"
  using length_steps [of p]
  by (auto simp: performAll_def perform_def navigateToStep_dispatch initialState_def
      currentStep_def)

text \<open>
  Claim C2: \<open>navigateToStep(index)\<close> changes nothing when the index is outside
  \<open>[0, length steps)\<close> or equal to the current index, and otherwise sets the previous
  index to the old current one and the current index to \<open>index\<close>. The code treats the
  index \<open>steps.length\<close>, which is outside these bounds, as a step to go to: the call
  changes both indices unless the current index is already \<open>steps.length\<close>.
\<close>

theorem navigateToStep_length_not_noop:
  "dispatch s (navigateToStep p s (int (length (steps p)))) =
     (if currentStepIndex s = int (length (steps p)) then s
      else s\<lparr>previousStepIndex := currentStepIndex s,
             currentStepIndex := int (length (steps p))\<rparr>)"
  by (auto simp: navigateToStep_dispatch)

section \<open>Navigation to the next step\<close>



section \<open>The animation direction\<close>


section \<open>What navigation leaves alone\<close>

text \<open>
  Claim C10: each of \<open>navigateToStep\<close>, \<open>navigateToNextStep\<close> and
  \<open>navigateToPreviousStep\<close> calls nothing but the setters of the two step indices, so
  the amount and the participants are the same after it; the step sequence is computed
  from the props, which no such call changes.
\<close>

theorem navigation_frame:
  "list_all isIndexSetter (navigateToStep p s i)
   \<and> list_all isIndexSetter (navigateToNextStep p s)
   \<and> list_all isIndexSetter (navigateToPreviousStep p s)
   \<and> amount (dispatch s (navigateToStep p s i)) = amount s
   \<and> participants (dispatch s (navigateToStep p s i)) = participants s
   \<and> amount (dispatch s (navigateToNextStep p s)) = amount s
   \<and> participants (dispatch s (navigateToNextStep p s)) = participants s
   \<and> amount (dispatch s (navigateToPreviousStep p s)) = amount s
   \<and> participants (dispatch s (navigateToPreviousStep p s)) = participants s"
  by (simp add: navigateToStep_dispatch navigateToNextStep_dispatch
        navigateToPreviousStep_dispatch)
     (simp add: navigateToStep_def navigateToNextStep_def navigateToPreviousStep_def Let_def)

section \<open>Properties of the number model\<close>

lemma pow2_power_int: "pow2 k = 2 powi k"
  by (simp add: pow2_def power_int_def inverse_eq_divide power_one_over)

lemma of_int_bitlen_bounds:
  assumes "0 < a"
  shows "pow2 (bitlen a - 1) \<le> of_int a" and "of_int a < pow2 (bitlen a)"
proof -
  have b: "1 \<le> bitlen a" using assms by (simp add: bitlen_alt_def)
  have "(2::int) ^ nat (bitlen a - 1) \<le> a" and "a < 2 ^ nat (bitlen a)"
    using bitlen_bounds [OF assms] by simp_all
  then have "(of_int ((2::int) ^ nat (bitlen a - 1)) :: rat) \<le> of_int a"
    and "(of_int a :: rat) < of_int (2 ^ nat (bitlen a))"
    by (simp_all only: of_int_le_iff of_int_less_iff)
  then show "pow2 (bitlen a - 1) \<le> of_int a" and "of_int a < pow2 (bitlen a)"
    using b by (simp_all add: pow2_def)
qed

text \<open>\<open>binade\<close> is the binary exponent of a positive rational.\<close>

lemma binade_bounds:
  assumes "0 < x"
  shows "pow2 (binade x) \<le> x \<and> x < pow2 (binade x + 1)"
proof -
  obtain a b where q: "quotient_of x = (a, b)" by (cases "quotient_of x")
  have bpos: "0 < b" using q by (rule quotient_of_denom_pos)
  have x: "x = of_int a / of_int b" using q by (rule quotient_of_div)
  have apos: "0 < a"
    using assms bpos by (simp add: x zero_less_divide_iff)
  define k where "k = bitlen a - bitlen b"
  have B: "(0::rat) < of_int b" using bpos by simp
  have lo: "pow2 (k - 1) < x"
  proof -
    have "pow2 (k - 1) * of_int b < pow2 (k - 1) * pow2 (bitlen b)"
      using of_int_bitlen_bounds(2) [OF bpos] by (simp add: pow2_power_int)
    also have "\<dots> = pow2 (bitlen a - 1)"
      by (simp add: pow2_power_int k_def flip: power_int_add)
    also have "\<dots> \<le> of_int a" by (rule of_int_bitlen_bounds(1) [OF apos])
    finally show ?thesis using B by (simp add: x pos_less_divide_eq)
  qed
  have hi: "x < pow2 (k + 1)"
  proof -
    have "of_int a < pow2 (bitlen a)" by (rule of_int_bitlen_bounds(2) [OF apos])
    also have "\<dots> = pow2 (k + 1) * pow2 (bitlen b - 1)"
      by (simp add: pow2_power_int k_def flip: power_int_add)
    also have "\<dots> \<le> pow2 (k + 1) * of_int b"
      using of_int_bitlen_bounds(1) [OF bpos] by (simp add: pow2_power_int)
    finally show ?thesis using B by (simp add: x pos_divide_less_eq)
  qed
  have bin: "binade x = (if pow2 k \<le> x then k else k - 1)"
    by (simp add: binade_def q k_def)
  show ?thesis
  proof (cases "pow2 k \<le> x")
    case True
    then show ?thesis using hi by (simp add: bin)
  next
    case False
    then show ?thesis using lo by (simp add: bin)
  qed
qed

text \<open>Rounding moves a number by at most one half.\<close>

lemma roundHalfEven_near: "\<bar>of_int (roundHalfEven r) - r\<bar> \<le> 1 / 2"
proof -
  define f where "f = \<lfloor>r\<rfloor>"
  define d where "d = r - of_int f"
  have d: "0 \<le> d" "d < 1"
    unfolding d_def f_def by linarith+
  have rh: "roundHalfEven r =
      (if d < 1 / 2 then f else if 1 / 2 < d then f + 1 else if even f then f else f + 1)"
    by (simp add: roundHalfEven_def Let_def f_def d_def)
  have "\<bar>of_int (if d < 1 / 2 then f else if 1 / 2 < d then f + 1
          else if even f then f else f + 1) - (of_int f + d)\<bar> \<le> 1 / 2"
    using d by auto
  moreover have "of_int f + d = r"
    by (simp add: d_def)
  ultimately show ?thesis
    by (simp only: rh)
qed

text \<open>
  The steps of \<open>Math.round("12.345" * 100)\<close>: the string denotes the binary64 value
  \<open>6949617174986097 / 2^49\<close>, a little above \<open>12.345\<close>; one hundred times that is not
  representable and rounds to \<open>1234.5\<close>; \<open>Math.round\<close> takes the tie upwards.
\<close>

lemma StringToNumber_12_345:
  "StringToNumber ''12.345'' = Some (6949617174986097 / 562949953421312)"
  by code_simp

lemma numberMultiply_12_345:
  "numberMultiply (6949617174986097 / 562949953421312) 100 = Some (2469 / 2)"
  by code_simp

lemma amountInDollars_12_345: "amountInDollars ''12.345'' = Some 1235"
  by code_simp

text \<open>
  The rounding of binary64 shows elsewhere: \<open>1.005 * 100\<close> is \<open>100.49999999999999\<close>,
  so the amount \<open>"1.005"\<close> gives \<open>100\<close>, where exact decimal arithmetic gives \<open>101\<close>.
\<close>

lemma amountInDollars_1_005: "amountInDollars ''1.005'' = Some 100"
  by code_simp

section \<open>Submission\<close>



text \<open>
  Claim C6: for the amount \<open>"12.345"\<close>, the conversion \<open>Math.round(amount * 100)\<close>
  gives \<open>1235\<close>, in \<open>sendMoney\<close> and in the single request of \<open>createTransaction\<close>.
\<close>

theorem minor_units_12_345:
  "amountInDollars ''12.345'' = Some 1235
   \<and> sendMoney C p (s\<lparr>amount := ''12.345''\<rparr>) paymentMethodType =
       (if paymentMethodType = PAYMENT_TYPE_ELSEWHERE C
        then [SendMoneyElsewhere (report p) (Some 1235) (selectedCurrencyCode (iou p))
                (trim (comment (iou p))) (currentUser_login p) (firstElement (participants s))]
        else if paymentMethodType = PAYMENT_TYPE_PAYPAL_ME C
        then [SendMoneyViaPaypal (report p) (Some 1235) (selectedCurrencyCode (iou p))
                (trim (comment (iou p))) (currentUser_login p) (firstElement (participants s))]
        else if paymentMethodType = PAYMENT_TYPE_EXPENSIFY C
        then [SendMoneyWithWallet (report p) (Some 1235) (selectedCurrencyCode (iou p))
                (trim (comment (iou p))) (currentUser_login p) (firstElement (participants s))]
        else [])
   \<and> createTransaction C (p\<lparr>hasMultipleParticipants := False\<rparr>) (s\<lparr>amount := ''12.345''\<rparr>) sel =
       [RequestMoney (report p) (Some 1235) (selectedCurrencyCode (iou p))
          (currentUser_login p) (firstElement sel) (trim (comment (iou p)))]"
  by (simp add: sendMoney_def createTransaction_def Let_def amountInDollars_12_345)

section \<open>The reaction to a finished transaction\<close>

lemma render_completion:
  assumes "iou_ref p = deps_iou i \<longrightarrow>
             creatingIOUTransaction (iou p) = prevCreatingIOUTransactionStatusRef i"
  shows "filter isCompletionCall (fst (render p i)) =
           (if prevCreatingIOUTransactionStatusRef i \<and> \<not> creatingIOUTransaction (iou p)
            then [if iou_error (iou p) then SetCurrentStepIndex 0 else DismissModal]
            else [])"
  using assms
  by (auto simp: render_def Let_def transactionCompletionEffect_def connectivityEffect_def)

lemma render_refs:
  "deps_iou (snd (render p i)) = iou_ref p"
  "prevCreatingIOUTransactionStatusRef (snd (render p i)) = creatingIOUTransaction (iou p)"
  by (simp_all add: render_def Let_def)

lemma renders_completion:
  "immutableIou (deps_iou i) (prevCreatingIOUTransactionStatusRef i) ps \<Longrightarrow>
   map (filter isCompletionCall) (renders i ps) =
     fallingEdges (prevCreatingIOUTransactionStatusRef i) ps"
proof (induction ps arbitrary: i)
  case Nil
  then show ?case by simp
next
  case (Cons p ps)
  from Cons.prems have same: "iou_ref p = deps_iou i \<longrightarrow>
      creatingIOUTransaction (iou p) = prevCreatingIOUTransactionStatusRef i"
    and rest: "immutableIou (iou_ref p) (creatingIOUTransaction (iou p)) ps"
    by simp_all
  have "map (filter isCompletionCall) (renders (snd (render p i)) ps) =
          fallingEdges (creatingIOUTransaction (iou p)) ps"
    using Cons.IH [of "snd (render p i)"] rest by (simp add: render_refs)
  then show ?case
    using render_completion [OF same] by simp
qed

lemma mount_completion: "filter isCompletionCall (fst (mount p)) = []"
  by (simp add: mount_def Let_def mountEffect_def transactionCompletionEffect_def
      connectivityEffect_def)

lemma mount_refs:
  "deps_iou (snd (mount p)) = iou_ref p"
  "prevCreatingIOUTransactionStatusRef (snd (mount p)) = creatingIOUTransaction (iou p)"
  by (simp_all add: mount_def Let_def)

text \<open>
  Claim C5: the reaction to a finished transaction fires once at every render whose
  in-flight flag is false while the flag of the render before it was true, and at no
  other render, the first one included; when it fires it sets the current step index to
  \<open>0\<close> if the error flag is set and dismisses the modal otherwise. The objects of the
  store are taken as immutable: a changed flag arrives in a new object.
\<close>

theorem completion_fires_on_falling_edges:
  "filter isCompletionCall (fst (mount p)) = []
   \<and> (immutableIou (deps_iou i) (prevCreatingIOUTransactionStatusRef i) ps \<longrightarrow>
        map (filter isCompletionCall) (renders i ps) =
          fallingEdges (prevCreatingIOUTransactionStatusRef i) ps)"
  by (simp add: mount_completion renders_completion)

text \<open>
  After the first render: a transaction starts, succeeds, the component renders once
  more with the same props, a second transaction starts and fails.
\<close>

theorem completion_fires_on_falling_edges_witness:
  "immutableIou (deps_iou (snd (mount exampleProps)))
     (prevCreatingIOUTransactionStatusRef (snd (mount exampleProps)))
     [examplePropsWith 1 True False, examplePropsWith 2 False False,
      examplePropsWith 2 False False, examplePropsWith 3 True False,
      examplePropsWith 4 False True]
   \<and> map (filter isCompletionCall)
       (renders (snd (mount exampleProps))
          [examplePropsWith 1 True False, examplePropsWith 2 False False,
           examplePropsWith 2 False False, examplePropsWith 3 True False,
           examplePropsWith 4 False True])
     = [[], [DismissModal], [], [], [SetCurrentStepIndex 0]]"
proof -
  have h: "immutableIou (deps_iou (snd (mount exampleProps)))
     (prevCreatingIOUTransactionStatusRef (snd (mount exampleProps)))
     [examplePropsWith 1 True False, examplePropsWith 2 False False,
      examplePropsWith 2 False False, examplePropsWith 3 True False,
      examplePropsWith 4 False True]"
    by (simp add: mount_refs examplePropsWith_def exampleProps_def exampleIou_def)
  have e: "fallingEdges (prevCreatingIOUTransactionStatusRef (snd (mount exampleProps)))
     [examplePropsWith 1 True False, examplePropsWith 2 False False,
      examplePropsWith 2 False False, examplePropsWith 3 True False,
      examplePropsWith 4 False True]
     = [[], [DismissModal], [], [], [SetCurrentStepIndex 0]]"
    by (simp add: mount_refs examplePropsWith_def exampleProps_def exampleIou_def)
  show ?thesis
    using completion_fires_on_falling_edges [of exampleProps "snd (mount exampleProps)"
        "[examplePropsWith 1 True False, examplePropsWith 2 False False,
          examplePropsWith 2 False False, examplePropsWith 3 True False,
          examplePropsWith 4 False True]"] h e
    by simp
qed

text \<open>
  Claim C9: when the reaction takes its error branch (the in-flight flag fell and the
  error flag is set), the current step index becomes \<open>0\<close> and nothing else changes:
  the previous step index, the amount and the participants keep their values, and the
  direction is computed from the old previous index and the new current index \<open>0\<close>.
\<close>

theorem completion_error_frame:
  assumes "iou_ref p \<noteq> deps_iou i"
    and "prevCreatingIOUTransactionStatusRef i"
    and "\<not> creatingIOUTransaction (iou p)"
    and "iou_error (iou p)"
  shows "wizard (snd (render p i)) = (wizard i)\<lparr>currentStepIndex := 0\<rparr>
    \<and> previousStepIndex (wizard (snd (render p i))) = previousStepIndex (wizard i)
    \<and> amount (wizard (snd (render p i))) = amount (wizard i)
    \<and> participants (wizard (snd (render p i))) = participants (wizard i)
    \<and> direction q (wizard (snd (render p i))) =
        (if previousStepIndex (wizard i) = indexOf (steps q) IOUConfirm then Some ''in''
         else if previousStepIndex (wizard i) < 0 then Some ''in''
         else if 0 < previousStepIndex (wizard i) then Some ''out''
         else None)"
proof -
  have w: "wizard (snd (render p i)) = (wizard i)\<lparr>currentStepIndex := 0\<rparr>"
    using assms
    by (simp add: render_def Let_def transactionCompletionEffect_def connectivityEffect_def
        dispatch_def)
  show ?thesis
    using length_steps [of q]
    by (auto simp: w direction_def Let_def amountIndex_steps confirmIndex_steps)
qed

theorem completion_error_frame_witness:
  "iou_ref (examplePropsWith 2 False True) \<noteq> deps_iou exampleComponent
   \<and> prevCreatingIOUTransactionStatusRef exampleComponent
   \<and> \<not> creatingIOUTransaction (iou (examplePropsWith 2 False True))
   \<and> iou_error (iou (examplePropsWith 2 False True))
   \<and> wizard (snd (render (examplePropsWith 2 False True) exampleComponent)) =
       \<lparr>previousStepIndex = 1, currentStepIndex = 0, participants = [], amount = ''12.345''\<rparr>
   \<and> direction exampleProps (wizard (snd (render (examplePropsWith 2 False True) exampleComponent)))
       = Some ''out''"
proof -
  have h1: "iou_ref (examplePropsWith 2 False True) \<noteq> deps_iou exampleComponent"
    by (simp add: examplePropsWith_def exampleComponent_def)
  have h2: "prevCreatingIOUTransactionStatusRef exampleComponent"
    by (simp add: exampleComponent_def)
  have h3: "\<not> creatingIOUTransaction (iou (examplePropsWith 2 False True))"
    by (simp add: examplePropsWith_def)
  have h4: "iou_error (iou (examplePropsWith 2 False True))"
    by (simp add: examplePropsWith_def)
  have conf: "indexOf (steps exampleProps) IOUConfirm = 2"
    by (simp add: steps_def exampleProps_def indexOf_def)
  have prev: "previousStepIndex (wizard exampleComponent) = 1"
    by (simp add: exampleComponent_def)
  have w: "(wizard exampleComponent)\<lparr>currentStepIndex := 0\<rparr> =
      \<lparr>previousStepIndex = 1, currentStepIndex = 0, participants = [], amount = ''12.345''\<rparr>"
    by (simp add: exampleComponent_def)
  note frame = completion_error_frame [OF h1 h2 h3 h4, of exampleProps]
  have a: "wizard (snd (render (examplePropsWith 2 False True) exampleComponent)) =
       \<lparr>previousStepIndex = 1, currentStepIndex = 0, participants = [], amount = ''12.345''\<rparr>"
    using frame [THEN conjunct1] by (simp only: w)
  have b: "direction exampleProps
       (wizard (snd (render (examplePropsWith 2 False True) exampleComponent))) = Some ''out''"
    using frame [THEN conjunct2, THEN conjunct2, THEN conjunct2, THEN conjunct2]
    by (simp add: conf prev)
  show ?thesis
    using h1 h2 h3 h4 a b by (simp only: simp_thms)
qed

end
